theory Spec2Isabelle
  imports Main
begin

section \<open>JavaScript values used by the forms\<close>

text \<open>
  A state cell of type \<^verbatim>\<open>string | null\<close> is a \<open>string option\<close>, with \<open>None\<close> for \<^verbatim>\<open>null\<close>;
  so is a value that may be a string or \<^verbatim>\<open>undefined\<close>, and one whose \<^verbatim>\<open>null\<close> and
  \<^verbatim>\<open>undefined\<close> the code only ever tests for truthiness. JavaScript's truthiness test
  (\<^verbatim>\<open>if (x)\<close>, \<^verbatim>\<open>!x\<close>, \<^verbatim>\<open>x || y\<close>) is false for \<^verbatim>\<open>null\<close>, \<^verbatim>\<open>undefined\<close> and the empty
  string.
\<close>

fun truthy :: "string option \<Rightarrow> bool" where
  "truthy None = False"
| "truthy (Some v) = (v \<noteq> [])"

text \<open>
  Where \<^verbatim>\<open>null\<close> and \<^verbatim>\<open>undefined\<close> must be told apart, a value is a \<open>js_string\<close>: the
  picture of an update request is \<^verbatim>\<open>undefined\<close>, not \<^verbatim>\<open>null\<close>, when nothing is selected.
  \<open>js_of_nullable\<close> reads a \<^verbatim>\<open>string | null\<close> cell as such a value, and \<open>or_undefined\<close> is
  \<^verbatim>\<open>x || undefined\<close> on such a cell: the value itself when truthy, \<^verbatim>\<open>undefined\<close>
  otherwise.
\<close>

datatype js_string = JsUndefined | JsNull | JsString string

fun js_of_nullable :: "string option \<Rightarrow> js_string" where
  "js_of_nullable None = JsNull"
| "js_of_nullable (Some v) = JsString v"

definition or_undefined :: "string option \<Rightarrow> js_string" where
  "or_undefined x = (if truthy x then js_of_nullable x else JsUndefined)"

text \<open>\<^verbatim>\<open>x || d\<close> with a string default.\<close>

definition or_default :: "string option \<Rightarrow> string \<Rightarrow> string" where
  "or_default x d = (case x of None \<Rightarrow> d | Some v \<Rightarrow> if v = [] then d else v)"

text \<open>The outcome of an awaited promise: it resolves with a value, or it rejects and
  the \<^verbatim>\<open>await\<close> throws.\<close>

datatype 'a awaited = Resolved 'a | Rejected

section \<open>The sign-in form (SignIn.tsx)\<close>

text \<open>The form values \<^verbatim>\<open>SignInData\<close>, the argument object of the \<^verbatim>\<open>signIn\<close> call
  (\<^verbatim>\<open>{...data, recaptchaToken, redirect: false}\<close>) and the response of next-auth.\<close>

record SignInData =
  email_s :: string
  password_s :: string

record SignInArgs =
  arg_email :: string
  arg_password :: string
  arg_recaptchaToken :: string
  arg_redirect :: bool

record SignInResponse =
  resp_error :: "string option"
  resp_status :: nat
  resp_ok :: bool
  resp_url :: "string option"

text \<open>
  What the handler finds around it in one run. \<open>recaptchaRef\<close> is \<open>None\<close> when
  \<^verbatim>\<open>recaptchaRef.current\<close> is null (then \<^verbatim>\<open>?.executeAsync()\<close> and \<^verbatim>\<open>?.reset()\<close> are
  skipped and the token is \<^verbatim>\<open>undefined\<close>); otherwise it holds the outcome of
  \<^verbatim>\<open>await executeAsync()\<close>, a token or \<^verbatim>\<open>null\<close>. \<open>signIn_outcome\<close> is the outcome of
  \<^verbatim>\<open>await signIn('user-login', args)\<close>; the response itself may be \<^verbatim>\<open>undefined\<close>. The
  two awaited calls are the ones that can throw; the state setters, \<^verbatim>\<open>reset\<close> and
  \<^verbatim>\<open>router.replace\<close> are taken to return normally.
\<close>

record SignInEnv =
  recaptchaRef :: "string option awaited option"
  signIn_outcome :: "SignInArgs \<Rightarrow> SignInResponse option awaited"

text \<open>Everything one run of the handler does, in order: state setters, calls on the
  CAPTCHA widget, the \<^verbatim>\<open>signIn\<close> call and the router call.\<close>

datatype SignInAction =
    SetIsSubmitting bool
  | ExecuteAsync
  | ResetCaptcha
  | SetError string
  | SignInCall string SignInArgs
  | RouterReplace string

text \<open>The two literal messages of the handler. The source writes them in Portuguese with
  accented letters (\<^verbatim>\<open>verificacao\<close>, \<^verbatim>\<open>seguranca\<close> carry a cedilla and a tilde there);
  they are spelled without the accents here.\<close>

definition captcha_failed_message :: string where
  "captcha_failed_message = ''Falha na verificacao de seguranca. Por favor, tente novamente.''"

definition signin_failed_message :: string where
  "signin_failed_message = ''Falha ao entrar. Por favor, tente novamente.''"

definition signIn_args :: "SignInData \<Rightarrow> string \<Rightarrow> SignInArgs" where
  "signIn_args d tok =
     \<lparr>arg_email = email_s d, arg_password = password_s d,
      arg_recaptchaToken = tok, arg_redirect = False\<rparr>"

text \<open>How the \<^verbatim>\<open>try\<close> block ends: by falling off its end or a \<^verbatim>\<open>return\<close>, or by a
  thrown exception that the \<^verbatim>\<open>catch\<close> clause receives.\<close>

datatype completion = Returned | Thrown

text \<open>The part of the \<^verbatim>\<open>try\<close> block after the token was found truthy (lines 47 to 58).\<close>

definition signIn_step :: "SignInData \<Rightarrow> SignInEnv \<Rightarrow> string \<Rightarrow> SignInAction list \<times> completion" where
  "signIn_step d env tok =
     (let args = signIn_args d tok in
      case signIn_outcome env args of
        Rejected \<Rightarrow> ([SignInCall ''user-login'' args], Thrown)
      | Resolved response \<Rightarrow>
          (case response of
             None \<Rightarrow> ([SignInCall ''user-login'' args, RouterReplace ''/user/home''], Returned)
           | Some r \<Rightarrow>
               (case resp_error r of
                  None \<Rightarrow> ([SignInCall ''user-login'' args, RouterReplace ''/user/home''], Returned)
                | Some e \<Rightarrow>
                    if e \<noteq> [] then ([SignInCall ''user-login'' args, SetError e], Returned)
                    else ([SignInCall ''user-login'' args, RouterReplace ''/user/home''], Returned))))"

text \<open>The part of the \<^verbatim>\<open>try\<close> block from the token test on (lines 42 to 58).\<close>

definition after_captcha :: "SignInData \<Rightarrow> SignInEnv \<Rightarrow> string option \<Rightarrow> SignInAction list \<times> completion" where
  "after_captcha d env recaptchaToken =
     (case recaptchaToken of
        None \<Rightarrow> ([SetError captcha_failed_message], Returned)
      | Some tok \<Rightarrow>
          if tok = [] then ([SetError captcha_failed_message], Returned)
          else signIn_step d env tok)"

text \<open>The whole \<^verbatim>\<open>try\<close> block (lines 37 to 58).\<close>

definition try_block :: "SignInData \<Rightarrow> SignInEnv \<Rightarrow> SignInAction list \<times> completion" where
  "try_block d env =
     (case recaptchaRef env of
        None \<Rightarrow>
          (let (acts, c) = after_captcha d env None in (SetIsSubmitting True # acts, c))
      | Some Rejected \<Rightarrow> ([SetIsSubmitting True, ExecuteAsync], Thrown)
      | Some (Resolved recaptchaToken) \<Rightarrow>
          (let (acts, c) = after_captcha d env recaptchaToken
           in (SetIsSubmitting True # ExecuteAsync # ResetCaptcha # acts, c)))"

text \<open>\<^verbatim>\<open>handleSignIn\<close>: the \<^verbatim>\<open>try\<close> block, the \<^verbatim>\<open>catch\<close> clause when it threw, and the
  \<^verbatim>\<open>finally\<close> clause on every path.\<close>

definition handleSignIn :: "SignInData \<Rightarrow> SignInEnv \<Rightarrow> SignInAction list" where
  "handleSignIn d env =
     (let (acts, c) = try_block d env in
      acts
      @ (case c of Thrown \<Rightarrow> [SetError signin_failed_message] | Returned \<Rightarrow> [])
      @ [SetIsSubmitting False])"

text \<open>
  The component's state: the three \<^verbatim>\<open>useState\<close> cells, the path the component last
  handed to \<^verbatim>\<open>router.replace\<close> (none before the first redirect), and the timer pending to
  clear the error, if any (its delay in milliseconds). SignIn.tsx imports no
  \<^verbatim>\<open>useEffect\<close> and calls no \<^verbatim>\<open>setTimeout\<close>: the form itself starts no timer. It renders
  \<^verbatim>\<open>PopUpError\<close> while \<^verbatim>\<open>error\<close> is truthy and hands it the message and the \<^verbatim>\<open>onClose\<close>
  callback \<^verbatim>\<open>() => setError('')\<close> (line 84), so the timer is the popup's.
\<close>

record SignInForm_state =
  showPassword :: bool
  error_s :: string
  isSubmitting :: bool
  redirected_to :: "string option"
  errorTimer_s :: "nat option"

definition SignInForm_init :: SignInForm_state where
  "SignInForm_init =
     \<lparr>showPassword = True, error_s = [], isSubmitting = False,
      redirected_to = None, errorTimer_s = None\<rparr>"

text \<open>
  Modelled from the spec: the \<^verbatim>\<open>PopUpError\<close> component (\<^verbatim>\<open>components/PopUps/Error\<close>) is
  missing from the sources. The specification says that errors are rendered as transient
  popups that auto-dismiss after 5 s. So a popup that appears starts a timer of 5000 ms
  whose callback is its \<^verbatim>\<open>onClose\<close>; the timer goes when the popup goes; and it keeps
  running while the popup stays, whatever message it then shows. The arguments are
  whether the popup was shown before the render, whether it is shown after it, and the
  timer it held.
\<close>

definition PopUpError_timer :: "bool \<Rightarrow> bool \<Rightarrow> nat option \<Rightarrow> nat option" where
  "PopUpError_timer shown_before shown_after t =
     (if \<not> shown_after then None else if shown_before then t else Some 5000)"

text \<open>\<^verbatim>\<open>setError\<close> of the sign-in form, with what the render after it does to the popup.\<close>

definition setError_s :: "string \<Rightarrow> SignInForm_state \<Rightarrow> SignInForm_state" where
  "setError_s m s =
     s\<lparr>error_s := m,
       errorTimer_s := PopUpError_timer (error_s s \<noteq> []) (m \<noteq> []) (errorTimer_s s)\<rparr>"

fun apply_action :: "SignInForm_state \<Rightarrow> SignInAction \<Rightarrow> SignInForm_state" where
  "apply_action s (SetIsSubmitting b) = s\<lparr>isSubmitting := b\<rparr>"
| "apply_action s ExecuteAsync = s"
| "apply_action s ResetCaptcha = s"
| "apply_action s (SetError m) = setError_s m s"
| "apply_action s (SignInCall p a) = s"
| "apply_action s (RouterReplace r) = s\<lparr>redirected_to := Some r\<rparr>"

definition run_handleSignIn :: "SignInData \<Rightarrow> SignInEnv \<Rightarrow> SignInForm_state \<Rightarrow> SignInForm_state" where
  "run_handleSignIn d env s = foldl apply_action s (handleSignIn d env)"



fun is_SignInCall :: "SignInAction \<Rightarrow> bool" where
  "is_SignInCall (SignInCall p a) = True"
| "is_SignInCall _ = False"

fun is_SetError :: "SignInAction \<Rightarrow> bool" where
  "is_SetError (SetError m) = True"
| "is_SetError _ = False"

fun is_RouterReplace :: "SignInAction \<Rightarrow> bool" where
  "is_RouterReplace (RouterReplace r) = True"
| "is_RouterReplace _ = False"

text \<open>The token the run obtained from the widget: \<open>None\<close> when there is no widget, when
  \<^verbatim>\<open>executeAsync\<close> rejected, or when it resolved with \<^verbatim>\<open>null\<close>.\<close>

definition obtained_token :: "SignInEnv \<Rightarrow> string option" where
  "obtained_token env =
     (case recaptchaRef env of
        None \<Rightarrow> None
      | Some Rejected \<Rightarrow> None
      | Some (Resolved t) \<Rightarrow> t)"





text \<open>
  The branch one run takes, read off the handler's control flow: no widget behind the ref,
  \<^verbatim>\<open>executeAsync\<close> rejected, a falsy token, \<^verbatim>\<open>signIn\<close> rejected, \<^verbatim>\<open>signIn\<close> answered with a
  truthy \<^verbatim>\<open>error\<close>, or signed in. It serves the proofs: \<open>handleSignIn\<close> is shown to do
  exactly \<open>trace_of\<close> of the branch of its environment.
\<close>

datatype SignInPath =
    NoWidget
  | CaptchaRejected
  | NoToken
  | SignInRejected string
  | SignInError string string
  | SignedIn string

definition path_of :: "SignInData \<Rightarrow> SignInEnv \<Rightarrow> SignInPath" where
  "path_of d env =
     (case recaptchaRef env of
        None \<Rightarrow> NoWidget
      | Some Rejected \<Rightarrow> CaptchaRejected
      | Some (Resolved None) \<Rightarrow> NoToken
      | Some (Resolved (Some tok)) \<Rightarrow>
          if tok = [] then NoToken
          else (case signIn_outcome env (signIn_args d tok) of
                  Rejected \<Rightarrow> SignInRejected tok
                | Resolved None \<Rightarrow> SignedIn tok
                | Resolved (Some r) \<Rightarrow>
                    (case resp_error r of
                       None \<Rightarrow> SignedIn tok
                     | Some e \<Rightarrow> if e = [] then SignedIn tok else SignInError tok e)))"

fun trace_of :: "SignInData \<Rightarrow> SignInPath \<Rightarrow> SignInAction list" where
  "trace_of d NoWidget =
     [SetIsSubmitting True, SetError captcha_failed_message, SetIsSubmitting False]"
| "trace_of d CaptchaRejected =
     [SetIsSubmitting True, ExecuteAsync, SetError signin_failed_message, SetIsSubmitting False]"
| "trace_of d NoToken =
     [SetIsSubmitting True, ExecuteAsync, ResetCaptcha, SetError captcha_failed_message,
      SetIsSubmitting False]"
| "trace_of d (SignInRejected tok) =
     [SetIsSubmitting True, ExecuteAsync, ResetCaptcha,
      SignInCall ''user-login'' (signIn_args d tok),
      SetError signin_failed_message, SetIsSubmitting False]"
| "trace_of d (SignInError tok e) =
     [SetIsSubmitting True, ExecuteAsync, ResetCaptcha,
      SignInCall ''user-login'' (signIn_args d tok),
      SetError e, SetIsSubmitting False]"
| "trace_of d (SignedIn tok) =
     [SetIsSubmitting True, ExecuteAsync, ResetCaptcha,
      SignInCall ''user-login'' (signIn_args d tok),
      RouterReplace ''/user/home'', SetIsSubmitting False]"

text \<open>
  A failing run, in the words of the specification: the captcha gave no token (also when
  \<^verbatim>\<open>executeAsync\<close> threw), \<^verbatim>\<open>signIn\<close> threw (a network error), or \<^verbatim>\<open>signIn\<close> returned a
  response that carries an error. Every other run is a success.
\<close>

definition failure_path :: "SignInData \<Rightarrow> SignInEnv \<Rightarrow> bool" where
  "failure_path d env =
     (case obtained_token env of
        None \<Rightarrow> True
      | Some tok \<Rightarrow>
          if tok = [] then True
          else (case signIn_outcome env (signIn_args d tok) of
                  Rejected \<Rightarrow> True
                | Resolved None \<Rightarrow> False
                | Resolved (Some r) \<Rightarrow> truthy (resp_error r)))"

text \<open>Two environments used to run the handler on concrete inputs: a widget that
  resolves with \<^verbatim>\<open>null\<close>, and a widget that resolves with a token while \<^verbatim>\<open>signIn\<close>
  answers without an error.\<close>

definition env_no_token :: SignInEnv where
  "env_no_token = \<lparr>recaptchaRef = Some (Resolved None), signIn_outcome = (\<lambda>a. Rejected)\<rparr>"

definition env_signed_in :: SignInEnv where
  "env_signed_in =
     \<lparr>recaptchaRef = Some (Resolved (Some ''03AGdBq'')),
      signIn_outcome = (\<lambda>a. Resolved (Some \<lparr>resp_error = None, resp_status = 200,
                                              resp_ok = True, resp_url = None\<rparr>))\<rparr>"

definition env_bad_credentials :: SignInEnv where
  "env_bad_credentials =
     \<lparr>recaptchaRef = Some (Resolved (Some ''03AGdBq'')),
      signIn_outcome = (\<lambda>a. Resolved (Some \<lparr>resp_error = Some ''CredentialsSignin'',
                                              resp_status = 401, resp_ok = False,
                                              resp_url = None\<rparr>))\<rparr>"

definition some_credentials :: SignInData where
  "some_credentials = \<lparr>email_s = ''ana@example.com'', password_s = ''secret''\<rparr>"

section \<open>The profile form (ProfileForm)\<close>

text \<open>\<^verbatim>\<open>ProfileData\<close> as the interface declares it; \<open>id_p\<close>, \<open>name_p\<close> and \<open>email_p\<close> are its
  fields \<^verbatim>\<open>id\<close>, \<^verbatim>\<open>name\<close> and \<^verbatim>\<open>email\<close>.\<close>

record ProfileData =
  id_p :: string
  name_p :: string
  email_p :: string
  profilePicture :: "string option"

text \<open>A browser \<^verbatim>\<open>File\<close>: its size is a number of bytes.\<close>

record File =
  file_name :: string
  file_size :: nat
  file_type :: string

text \<open>The object literal handed to \<^verbatim>\<open>mutate\<close> (lines 104 to 109) and the call
  \<^verbatim>\<open>updateUserProfile(userId, {name, email, profilePicture})\<close> that \<^verbatim>\<open>mutationFn\<close> makes
  (lines 88 to 92). \<^verbatim>\<open>session?.user?.id\<close> can be \<^verbatim>\<open>undefined\<close>.\<close>

record MutationVariables =
  mv_id :: "string option"
  mv_name :: string
  mv_email :: string
  mv_profilePicture :: js_string

record UpdateRequest =
  req_userId :: "string option"
  req_name :: string
  req_email :: string
  req_profilePicture :: js_string

text \<open>The values react-hook-form hands to the submit handler, as far as it reads them.\<close>

record FormValues =
  fv_name :: string
  fv_email :: string

text \<open>
  The component's state: its \<^verbatim>\<open>useState\<close> cells (\<open>error_p\<close> is \<^verbatim>\<open>error\<close>), the watched
  form values (\<^verbatim>\<open>undefined\<close> until set), the query's \<^verbatim>\<open>data\<close> (\<open>data_q\<close>), the session's
  user id, the mutation's \<^verbatim>\<open>isPending\<close>, the number of \<^verbatim>\<open>FileReader\<close>s started whose
  \<^verbatim>\<open>loadend\<close> has not fired yet, the timer each of the two timeout effects holds (its delay
  in milliseconds) and the calls of \<^verbatim>\<open>updateUserProfile\<close> made so far. \<open>preview\<close> is a
  \<^verbatim>\<open>string\<close> for the type checker, but \<^verbatim>\<open>reader.result as string\<close> is \<^verbatim>\<open>null\<close> after a
  failed read, so it is an option here.
\<close>

record ProfileForm_state =
  preview :: "string option"
  selectedFile :: "string option"
  error_p :: "string option"
  success :: "string option"
  initialData :: "ProfileData option"
  watchedName :: "string option"
  watchedEmail :: "string option"
  data_q :: "ProfileData option"
  session_user_id :: "string option"
  isPending :: bool
  pendingReads :: nat
  errorTimer :: "nat option"
  successTimer :: "nat option"
  sent :: "UpdateRequest list"

definition placeholder :: string where
  "placeholder = ''/assets/icons/profile-default-placeholder.png''"

definition ProfileForm_init :: "string option \<Rightarrow> ProfileForm_state" where
  "ProfileForm_init uid =
     \<lparr>preview = Some placeholder, selectedFile = None, error_p = None, success = None,
      initialData = None, watchedName = None, watchedEmail = None, data_q = None,
      session_user_id = uid, isPending = False, pendingReads = 0,
      errorTimer = None, successTimer = None, sent = []\<rparr>"

text \<open>
  \<^verbatim>\<open>setError\<close> together with the effect that depends on \<^verbatim>\<open>[error]\<close> (lines 53 to 58).
  Setting a state cell to the value it already holds changes nothing and runs no effect.
  Otherwise the component renders again and the effect runs: its previous cleanup clears
  the timer it held, and a truthy message starts a new timer of 5000 ms whose callback is
  \<^verbatim>\<open>setError(null)\<close>. \<^verbatim>\<open>setSuccess\<close> and the effect on \<^verbatim>\<open>[success]\<close> (lines 60 to 65) are the
  same.
\<close>

definition setError :: "string option \<Rightarrow> ProfileForm_state \<Rightarrow> ProfileForm_state" where
  "setError v s =
     (if error_p s = v then s
      else s\<lparr>error_p := v, errorTimer := (if truthy v then Some 5000 else None)\<rparr>)"

definition setSuccess :: "string option \<Rightarrow> ProfileForm_state \<Rightarrow> ProfileForm_state" where
  "setSuccess v s =
     (if success s = v then s
      else s\<lparr>success := v, successTimer := (if truthy v then Some 5000 else None)\<rparr>)"

text \<open>A timer that fires is gone, and its callback runs.\<close>

definition errorTimer_fires :: "ProfileForm_state \<Rightarrow> ProfileForm_state" where
  "errorTimer_fires s =
     (case errorTimer s of None \<Rightarrow> s | Some ms \<Rightarrow> setError None (s\<lparr>errorTimer := None\<rparr>))"

definition successTimer_fires :: "ProfileForm_state \<Rightarrow> ProfileForm_state" where
  "successTimer_fires s =
     (case successTimer s of None \<Rightarrow> s | Some ms \<Rightarrow> setSuccess None (s\<lparr>successTimer := None\<rparr>))"

text \<open>The effect on \<^verbatim>\<open>[data, setValue]\<close> (lines 44 to 51), for a fetched profile.\<close>

definition data_effect :: "ProfileData \<Rightarrow> ProfileForm_state \<Rightarrow> ProfileForm_state" where
  "data_effect d s =
     s\<lparr>watchedName := Some (name_p d), watchedEmail := Some (email_p d),
       preview := Some (or_default (profilePicture d) placeholder),
       initialData := Some d\<rparr>"

text \<open>\<^verbatim>\<open>e.target.files?.[0]\<close>: \<^verbatim>\<open>undefined\<close> when the list is absent or empty.\<close>

definition first_file :: "File list option \<Rightarrow> File option" where
  "first_file files =
     (case files of None \<Rightarrow> None | Some fs \<Rightarrow> (case fs of [] \<Rightarrow> None | f # rest \<Rightarrow> Some f))"

definition size_message :: string where
  "size_message = ''Image size should not exceed 5mb''"

text \<open>\<^verbatim>\<open>handleImageChange\<close> (lines 67 to 84). Starting the reader is counted in
  \<open>pendingReads\<close>; its \<^verbatim>\<open>onloadend\<close> callback is \<open>onloadend\<close> below, with \<^verbatim>\<open>reader.result\<close>
  (a data URI, or \<^verbatim>\<open>null\<close> when the read failed) as its argument.\<close>

definition handleImageChange :: "File list option \<Rightarrow> ProfileForm_state \<Rightarrow> ProfileForm_state" where
  "handleImageChange files s =
     (case first_file files of
        None \<Rightarrow> s
      | Some f \<Rightarrow>
          if file_size f > 5000 * 1024 then setError (Some size_message) s
          else s\<lparr>pendingReads := pendingReads s + 1\<rparr>)"

definition onloadend :: "string option \<Rightarrow> ProfileForm_state \<Rightarrow> ProfileForm_state" where
  "onloadend base64String s = s\<lparr>selectedFile := base64String, preview := base64String\<rparr>"

text \<open>\<^verbatim>\<open>onSubmit\<close> (lines 102 to 113) builds the variables; \<^verbatim>\<open>mutate\<close> does not throw, so the
  \<^verbatim>\<open>catch\<close> clause never runs. \<^verbatim>\<open>mutationFn\<close> (lines 87 to 93) builds the request.\<close>

definition onSubmit :: "FormValues \<Rightarrow> ProfileForm_state \<Rightarrow> MutationVariables" where
  "onSubmit d s =
     \<lparr>mv_id = session_user_id s, mv_name = fv_name d, mv_email = fv_email d,
      mv_profilePicture = or_undefined (selectedFile s)\<rparr>"

definition mutationFn :: "string option \<Rightarrow> MutationVariables \<Rightarrow> UpdateRequest" where
  "mutationFn uid d =
     \<lparr>req_userId = uid, req_name = mv_name d, req_email = mv_email d,
      req_profilePicture = mv_profilePicture d\<rparr>"

text \<open>\<^verbatim>\<open>isFormChanged\<close> (lines 115 to 120), the \<^verbatim>\<open>isDisabled\<close> prop (line 147) and the
  button's \<^verbatim>\<open>disabled\<close> attribute (line 205).\<close>

definition isFormChanged :: "ProfileForm_state \<Rightarrow> bool" where
  "isFormChanged s =
     (case initialData s of
        None \<Rightarrow> False
      | Some i \<Rightarrow>
          watchedName s \<noteq> Some (name_p i) \<or> watchedEmail s \<noteq> Some (email_p i)
          \<or> selectedFile s \<noteq> None)"

definition isDisabled :: "ProfileForm_state \<Rightarrow> bool" where
  "isDisabled s = (data_q s = None \<or> \<not> isFormChanged s)"

definition button_disabled :: "ProfileForm_state \<Rightarrow> bool" where
  "button_disabled s = (isPending s \<or> isDisabled s)"

text \<open>
  Submitting the form. The browser submits nothing through a disabled submit button;
  \<^verbatim>\<open>handleSubmit\<close> of react-hook-form then checks the \<^verbatim>\<open>required\<close> rule of both fields and
  calls \<^verbatim>\<open>onSubmit\<close> with the form values only when both are filled in; \<^verbatim>\<open>mutate\<close> runs
  \<^verbatim>\<open>mutationFn\<close> and the mutation is pending until it settles.
\<close>

definition form_values :: "ProfileForm_state \<Rightarrow> FormValues option" where
  "form_values s =
     (case (watchedName s, watchedEmail s) of
        (Some n, Some e) \<Rightarrow>
          if n = [] \<or> e = [] then None else Some \<lparr>fv_name = n, fv_email = e\<rparr>
      | _ \<Rightarrow> None)"

definition form_submit :: "ProfileForm_state \<Rightarrow> ProfileForm_state" where
  "form_submit s =
     (if button_disabled s then s
      else case form_values s of
             None \<Rightarrow> s
           | Some d \<Rightarrow>
               s\<lparr>isPending := True,
                 sent := sent s @ [mutationFn (session_user_id s) (onSubmit d s)]\<rparr>)"

text \<open>The mutation's \<^verbatim>\<open>onSuccess\<close> and \<^verbatim>\<open>onError\<close> callbacks (lines 94 to 99), once the
  pending mutation settles.\<close>

definition mutation_onSuccess :: "ProfileForm_state \<Rightarrow> ProfileForm_state" where
  "mutation_onSuccess s =
     (if isPending s then setSuccess (Some ''Profile updated successfully'') (s\<lparr>isPending := False\<rparr>)
      else s)"

definition mutation_onError :: "ProfileForm_state \<Rightarrow> ProfileForm_state" where
  "mutation_onError s =
     (if isPending s then setError (Some ''Failed to update profile'') (s\<lparr>isPending := False\<rparr>)
      else s)"

text \<open>Everything that can happen to the mounted form, and one step of it. The query
  runs only with a truthy user id (\<^verbatim>\<open>enabled\<close>), and its effect runs when \<^verbatim>\<open>data\<close> changes:
  a refetch that brings equal data keeps the object it had, so nothing happens then. A
  \<^verbatim>\<open>loadend\<close> fires only for a reader that was started; the popups' \<^verbatim>\<open>onClose\<close> callbacks
  are \<^verbatim>\<open>setError(null)\<close> and \<^verbatim>\<open>setSuccess(null)\<close>, and a popup may call its callback at any
  time, by hand or by a timer of its own.\<close>

datatype ProfileForm_event =
    DataFetched ProfileData
  | NameTyped string
  | EmailTyped string
  | ImageChange "File list option"
  | ReaderLoadEnd "string option"
  | FormSubmit
  | MutationSuccess
  | MutationError
  | ErrorTimerFires
  | SuccessTimerFires
  | ErrorPopUpClose
  | SuccessPopUpClose

fun step :: "ProfileForm_state \<Rightarrow> ProfileForm_event \<Rightarrow> ProfileForm_state" where
  "step s (DataFetched d) =
     (if truthy (session_user_id s) \<and> data_q s \<noteq> Some d
      then data_effect d (s\<lparr>data_q := Some d\<rparr>) else s)"
| "step s (NameTyped n) = s\<lparr>watchedName := Some n\<rparr>"
| "step s (EmailTyped e) = s\<lparr>watchedEmail := Some e\<rparr>"
| "step s (ImageChange files) = handleImageChange files s"
| "step s (ReaderLoadEnd r) =
     (if pendingReads s = 0 then s else onloadend r (s\<lparr>pendingReads := pendingReads s - 1\<rparr>))"
| "step s FormSubmit = form_submit s"
| "step s MutationSuccess = mutation_onSuccess s"
| "step s MutationError = mutation_onError s"
| "step s ErrorTimerFires = errorTimer_fires s"
| "step s SuccessTimerFires = successTimer_fires s"
| "step s ErrorPopUpClose = setError None s"
| "step s SuccessPopUpClose = setSuccess None s"

definition run :: "ProfileForm_state \<Rightarrow> ProfileForm_event list \<Rightarrow> ProfileForm_state" where
  "run s es = foldl step s es"


text \<open>The cap the specification names, 5MB, in bytes: with binary megabytes and with
  decimal ones.\<close>

definition five_MB_binary :: nat where
  "five_MB_binary = 5 * 1024 * 1024"

definition five_MB_decimal :: nat where
  "five_MB_decimal = 5 * 1000 * 1000"

text \<open>Concrete inputs: an image file of a given size, a fetched profile, the form after
  the profile arrived, a data URI, the same profile under a new name, and the form after
  a small image was then picked and read.\<close>

definition image_of_size :: "nat \<Rightarrow> File" where
  "image_of_size n = \<lparr>file_name = ''photo.png'', file_size = n, file_type = ''image/png''\<rparr>"

definition ana :: ProfileData where
  "ana = \<lparr>id_p = ''u1'', name_p = ''Ana'', email_p = ''ana@example.com'',
          profilePicture = None\<rparr>"

definition fetched :: ProfileForm_state where
  "fetched = run (ProfileForm_init (Some ''u1'')) [DataFetched ana]"

definition picture_uri :: string where
  "picture_uri = ''data:image/png;base64,iVBORw0KGgo=''"

definition ana_renamed :: ProfileData where
  "ana_renamed = ana\<lparr>name_p := ''Ana Maria''\<rparr>"

definition edited :: ProfileForm_state where
  "edited =
     run fetched [ImageChange (Some [image_of_size 204800]), ReaderLoadEnd (Some picture_uri)]"

text \<open>The form of a user who picked a small image before the profile had arrived: the
  image is read first, the fetched profile lands after it.\<close>

definition picked_early :: ProfileForm_state where
  "picked_early =
     run (ProfileForm_init (Some ''u1''))
       [ImageChange (Some [image_of_size 204800]), ReaderLoadEnd (Some picture_uri),
        DataFetched ana]"

section \<open>The billet router (billet.routes.ts)\<close>

text \<open>
  The router is a table of routes in the order the chained calls declare them. A route has
  the verb of the \<^verbatim>\<open>Router\<close> method that declared it, a path pattern (its segments between
  the slashes: a literal, or a parameter \<^verbatim>\<open>:name\<close>), the middlewares given before the
  handler, and the controller method its handler calls.
\<close>

datatype http_method = GET | POST | PUT | PATCH | DELETE | HEAD | OPTIONS

datatype controller_method =
  getAllBilletsByUserId | uploadBillet | getDownloadUrl | deleteBillet

datatype segment = Lit string | Param string

text \<open>\<^verbatim>\<open>multer({ storage: multer.memoryStorage() })\<close>: the options object names a storage
  engine and nothing else, so no size limit is set (the other engine the library offers
  writes to a destination on disk). \<^verbatim>\<open>upload.single('file')\<close> is the middleware made from
  these options for one file under the given field name.\<close>

datatype storage_engine = MemoryStorage | DiskStorage string

record multer_options =
  storage :: storage_engine
  limits_fileSize :: "nat option"

datatype middleware = Single multer_options string

record route =
  verb :: http_method
  path :: "segment list"
  middlewares :: "middleware list"
  handler :: controller_method

definition multer :: "storage_engine \<Rightarrow> multer_options" where
  "multer st = \<lparr>storage = st, limits_fileSize = None\<rparr>"

definition upload :: multer_options where
  "upload = multer MemoryStorage"

definition billetRouter :: "route list" where
  "billetRouter =
     [\<lparr>verb = GET, path = [Lit ''billet''], middlewares = [],
       handler = getAllBilletsByUserId\<rparr>,
      \<lparr>verb = POST, path = [Lit ''billet''], middlewares = [Single upload ''file''],
       handler = uploadBillet\<rparr>,
      \<lparr>verb = GET, path = [Lit ''billet'', Lit ''download'', Param ''fileName''],
       middlewares = [], handler = getDownloadUrl\<rparr>,
      \<lparr>verb = DELETE, path = [Lit ''billet'', Param ''id''], middlewares = [],
       handler = deleteBillet\<rparr>]"

subsection \<open>How Express dispatches a request over the table\<close>












subsection \<open>What the upload middleware does with the files of a request\<close>

text \<open>
  The file parts of a multipart body in the order they arrive, each with the field name,
  the file name the client sent and the bytes, and the file object multer leaves in
  \<^verbatim>\<open>req.file\<close>. This is the library's behaviour for \<^verbatim>\<open>single\<close>, not code of the repository.
  The parser hands multer the base name of the file name (what follows the last slash or
  backslash; \<^verbatim>\<open>.\<close> and \<^verbatim>\<open>..\<close> count as no name). A part without a file name is skipped
  before any check. Any other part is refused with \<^verbatim>\<open>LIMIT_UNEXPECTED_FILE\<close> when it is
  under another field name or when the one file allowed has been taken, and with
  \<^verbatim>\<open>LIMIT_FILE_SIZE\<close> when it is over \<^verbatim>\<open>limits.fileSize\<close>; otherwise the storage engine
  takes it. With memory storage the whole content is in \<^verbatim>\<open>buffer\<close>; with disk storage it
  is written under the destination and no buffer is kept.
\<close>

record FilePart =
  fieldname :: string
  filename :: string
  content :: "char list"

record MulterFile =
  mf_fieldname :: string
  originalname :: string
  buffer :: "char list option"
  destination :: "string option"
  mf_size :: nat

datatype MulterError = LIMIT_UNEXPECTED_FILE | LIMIT_FILE_SIZE

definition basename :: "string \<Rightarrow> string" where
  "basename p =
     (let b = rev (takeWhile (\<lambda>c. c \<noteq> CHR ''/'' \<and> c \<noteq> CHR 0x5C) (rev p))
      in if b = ''.'' \<or> b = ''..'' then [] else b)"

definition store_file :: "storage_engine \<Rightarrow> FilePart \<Rightarrow> MulterFile" where
  "store_file st p =
     (case st of
        MemoryStorage \<Rightarrow>
          \<lparr>mf_fieldname = fieldname p, originalname = basename (filename p),
           buffer = Some (content p), destination = None, mf_size = length (content p)\<rparr>
      | DiskStorage dest \<Rightarrow>
          \<lparr>mf_fieldname = fieldname p, originalname = basename (filename p),
           buffer = None, destination = Some dest, mf_size = length (content p)\<rparr>)"

definition over_limit :: "nat option \<Rightarrow> nat \<Rightarrow> bool" where
  "over_limit lim n = (case lim of None \<Rightarrow> False | Some l \<Rightarrow> l < n)"

text \<open>The parts one after the other: \<open>left\<close> is the number of files the field may still
  take and \<open>taken\<close> the file stored so far.\<close>

fun take_parts :: "multer_options \<Rightarrow> string \<Rightarrow> nat \<Rightarrow> MulterFile option \<Rightarrow> FilePart list
    \<Rightarrow> MulterError + MulterFile option" where
  "take_parts opts field left taken [] = Inr taken"
| "take_parts opts field left taken (p # rest) =
     (if basename (filename p) = [] then take_parts opts field left taken rest
      else if fieldname p \<noteq> field \<or> left = 0 then Inl LIMIT_UNEXPECTED_FILE
      else if over_limit (limits_fileSize opts) (length (content p)) then Inl LIMIT_FILE_SIZE
      else take_parts opts field (left - 1) (Some (store_file (storage opts) p)) rest)"

fun run_middleware :: "middleware \<Rightarrow> FilePart list \<Rightarrow> MulterError + MulterFile option" where
  "run_middleware (Single opts field) parts = take_parts opts field 1 None parts"

text \<open>Concrete file parts of an upload: an invoice under the field \<^verbatim>\<open>file\<close>, sent with a
  path in its name, and the part a browser sends for a file input left empty.\<close>

definition invoice :: FilePart where
  "invoice =
     \<lparr>fieldname = ''file'', filename = ''bills/march.pdf'', content = ''%PDF-1.4''\<rparr>"

definition empty_input :: FilePart where
  "empty_input = \<lparr>fieldname = ''file'', filename = [], content = []\<rparr>"

section \<open>Properties of the sign-in form\<close>

lemma handleSignIn_trace: "handleSignIn d env = trace_of d (path_of d env)"
  by (simp add: handleSignIn_def try_block_def after_captcha_def signIn_step_def path_of_def
      Let_def split: option.split awaited.split)

lemma captcha_failed_message_nonempty: "captcha_failed_message \<noteq> []"
  by (simp add: captcha_failed_message_def)

lemma signin_failed_message_nonempty: "signin_failed_message \<noteq> []"
  by (simp add: signin_failed_message_def)

lemma path_without_token:
  "\<not> truthy (obtained_token env) \<Longrightarrow> path_of d env \<in> {NoWidget, CaptchaRejected, NoToken}"
  by (auto simp: path_of_def obtained_token_def split: option.splits awaited.splits)

lemma path_with_token:
  "path_of d env \<in> {SignInRejected tok, SignedIn tok} \<or> path_of d env = SignInError tok e
    \<Longrightarrow> recaptchaRef env = Some (Resolved (Some tok)) \<and> tok \<noteq> []"
  by (simp add: path_of_def split: option.splits awaited.splits if_splits)

lemma path_error_nonempty: "path_of d env = SignInError tok e \<Longrightarrow> e \<noteq> []"
  by (simp add: path_of_def split: option.splits awaited.splits if_splits)

lemma failure_path_iff: "failure_path d env = (\<forall>tok. path_of d env \<noteq> SignedIn tok)"
  by (auto simp: failure_path_def path_of_def obtained_token_def
      split: option.splits awaited.splits)


lemma path_env_signed_in: "path_of d env_signed_in = SignedIn ''03AGdBq''"
  by (simp add: path_of_def env_signed_in_def)

lemma path_env_bad_credentials:
  "path_of d env_bad_credentials = SignInError ''03AGdBq'' ''CredentialsSignin''"
  by (simp add: path_of_def env_bad_credentials_def)

text \<open>
  C2. A run in which the CAPTCHA widget yields no token (no widget behind the ref,
  \<^verbatim>\<open>executeAsync\<close> rejected, or a \<^verbatim>\<open>null\<close>, \<^verbatim>\<open>undefined\<close> or empty token) never calls
  \<^verbatim>\<open>signIn\<close>, and it sets an error message, which is what the form then shows. Conversely
  every \<^verbatim>\<open>signIn\<close> call of a run carries a non-empty token that \<^verbatim>\<open>executeAsync\<close> resolved
  with, and the call comes after \<^verbatim>\<open>executeAsync\<close> and \<^verbatim>\<open>reset\<close> in the run.
\<close>

theorem signIn_only_after_captcha_token:
  "(\<not> truthy (obtained_token env) \<longrightarrow>
      \<not> list_ex is_SignInCall (handleSignIn d env)
      \<and> list_ex is_SetError (handleSignIn d env)
      \<and> error_s (run_handleSignIn d env s) \<noteq> [])
   \<and> (\<forall>p a. SignInCall p a \<in> set (handleSignIn d env) \<longrightarrow>
        (\<exists>tok. recaptchaRef env = Some (Resolved (Some tok)) \<and> tok \<noteq> []
           \<and> p = ''user-login'' \<and> a = signIn_args d tok
           \<and> take 4 (handleSignIn d env) =
               [SetIsSubmitting True, ExecuteAsync, ResetCaptcha, SignInCall p a]))"
proof (intro conjI impI allI)
  assume nt: "\<not> truthy (obtained_token env)"
  from path_without_token [OF nt, of d]
  show "\<not> list_ex is_SignInCall (handleSignIn d env)"
    by (auto simp: handleSignIn_trace)
  from path_without_token [OF nt, of d]
  show "list_ex is_SetError (handleSignIn d env)"
    by (auto simp: handleSignIn_trace)
  from path_without_token [OF nt, of d]
  show "error_s (run_handleSignIn d env s) \<noteq> []"
    by (auto simp: handleSignIn_trace run_handleSignIn_def setError_s_def
        captcha_failed_message_nonempty signin_failed_message_nonempty)
next
  fix p a
  assume call: "SignInCall p a \<in> set (handleSignIn d env)"
  show "\<exists>tok. recaptchaRef env = Some (Resolved (Some tok)) \<and> tok \<noteq> []
           \<and> p = ''user-login'' \<and> a = signIn_args d tok
           \<and> take 4 (handleSignIn d env) =
               [SetIsSubmitting True, ExecuteAsync, ResetCaptcha, SignInCall p a]"
  proof (cases "path_of d env")
    case NoWidget
    with call show ?thesis by (simp add: handleSignIn_trace)
  next
    case CaptchaRejected
    with call show ?thesis by (simp add: handleSignIn_trace)
  next
    case NoToken
    with call show ?thesis by (simp add: handleSignIn_trace)
  next
    case (SignInRejected tok)
    with call path_with_token [of d env tok] show ?thesis by (simp add: handleSignIn_trace)
  next
    case (SignInError tok e)
    with call path_with_token [of d env tok e] show ?thesis by (simp add: handleSignIn_trace)
  next
    case (SignedIn tok)
    with call path_with_token [of d env tok] show ?thesis by (simp add: handleSignIn_trace)
  qed
qed

theorem signIn_only_after_captcha_token_witness:
  "\<not> truthy (obtained_token env_no_token)
   \<and> \<not> list_ex is_SignInCall (handleSignIn some_credentials env_no_token)
   \<and> list_ex is_SetError (handleSignIn some_credentials env_no_token)
   \<and> error_s (run_handleSignIn some_credentials env_no_token SignInForm_init) \<noteq> []
   \<and> SignInCall ''user-login'' (signIn_args some_credentials ''03AGdBq'')
        \<in> set (handleSignIn some_credentials env_signed_in)
   \<and> recaptchaRef env_signed_in = Some (Resolved (Some ''03AGdBq''))
   \<and> take 4 (handleSignIn some_credentials env_signed_in) =
        [SetIsSubmitting True, ExecuteAsync, ResetCaptcha,
         SignInCall ''user-login'' (signIn_args some_credentials ''03AGdBq'')]"
proof -
  have nt: "\<not> truthy (obtained_token env_no_token)"
    by (simp add: obtained_token_def env_no_token_def)
  have call: "SignInCall ''user-login'' (signIn_args some_credentials ''03AGdBq'')
        \<in> set (handleSignIn some_credentials env_signed_in)"
    by (simp add: handleSignIn_trace path_env_signed_in)
  from signIn_only_after_captcha_token [of env_no_token some_credentials SignInForm_init] nt
  have a: "\<not> list_ex is_SignInCall (handleSignIn some_credentials env_no_token)
      \<and> list_ex is_SetError (handleSignIn some_credentials env_no_token)
      \<and> error_s (run_handleSignIn some_credentials env_no_token SignInForm_init) \<noteq> []"
    by blast
  from signIn_only_after_captcha_token [of env_signed_in some_credentials SignInForm_init] call
  have "\<exists>tok. recaptchaRef env_signed_in = Some (Resolved (Some tok)) \<and> tok \<noteq> []
           \<and> signIn_args some_credentials ''03AGdBq'' = signIn_args some_credentials tok
           \<and> take 4 (handleSignIn some_credentials env_signed_in) =
               [SetIsSubmitting True, ExecuteAsync, ResetCaptcha,
                SignInCall ''user-login'' (signIn_args some_credentials ''03AGdBq'')]"
    by blast
  then have b: "recaptchaRef env_signed_in = Some (Resolved (Some ''03AGdBq''))
     \<and> take 4 (handleSignIn some_credentials env_signed_in) =
        [SetIsSubmitting True, ExecuteAsync, ResetCaptcha,
         SignInCall ''user-login'' (signIn_args some_credentials ''03AGdBq'')]"
    by (auto simp: signIn_args_def)
  from nt a call b show ?thesis by simp
qed

text \<open>
  C4. On every failing run (no captcha token, \<^verbatim>\<open>signIn\<close> answering with an error, or a
  thrown exception) the handler sets exactly one error message, a non-empty one that the
  form shows afterwards, and it does not redirect. On every run \<^verbatim>\<open>isSubmitting\<close> is false
  at the end, set by the last action of the run. On every successful run the handler
  calls \<^verbatim>\<open>router.replace('/user/home')\<close> once and sets no error.
\<close>

theorem signIn_failure_and_success_paths:
  "(failure_path d env \<longrightarrow>
      length (filter is_SetError (handleSignIn d env)) = 1
      \<and> (\<forall>m. SetError m \<in> set (handleSignIn d env) \<longrightarrow>
            m \<noteq> [] \<and> error_s (run_handleSignIn d env s) = m)
      \<and> \<not> list_ex is_RouterReplace (handleSignIn d env)
      \<and> redirected_to (run_handleSignIn d env s) = redirected_to s)
   \<and> isSubmitting (run_handleSignIn d env s) = False
   \<and> last (handleSignIn d env) = SetIsSubmitting False
   \<and> (\<not> failure_path d env \<longrightarrow>
        filter is_RouterReplace (handleSignIn d env) = [RouterReplace ''/user/home'']
        \<and> redirected_to (run_handleSignIn d env s) = Some ''/user/home''
        \<and> \<not> list_ex is_SetError (handleSignIn d env))"
proof (cases "path_of d env")
  case NoWidget
  then show ?thesis
    by (simp add: failure_path_iff handleSignIn_trace run_handleSignIn_def setError_s_def
        captcha_failed_message_nonempty)
next
  case CaptchaRejected
  then show ?thesis
    by (simp add: failure_path_iff handleSignIn_trace run_handleSignIn_def setError_s_def
        signin_failed_message_nonempty)
next
  case NoToken
  then show ?thesis
    by (simp add: failure_path_iff handleSignIn_trace run_handleSignIn_def setError_s_def
        captcha_failed_message_nonempty)
next
  case (SignInRejected tok)
  then show ?thesis
    by (simp add: failure_path_iff handleSignIn_trace run_handleSignIn_def setError_s_def
        signin_failed_message_nonempty)
next
  case (SignInError tok e)
  with path_error_nonempty [of d env tok e] show ?thesis
    by (simp add: failure_path_iff handleSignIn_trace run_handleSignIn_def setError_s_def)
next
  case (SignedIn tok)
  then show ?thesis
    by (simp add: failure_path_iff handleSignIn_trace run_handleSignIn_def setError_s_def)
qed

theorem signIn_failure_and_success_paths_witness:
  "failure_path some_credentials env_bad_credentials
   \<and> length (filter is_SetError (handleSignIn some_credentials env_bad_credentials)) = 1
   \<and> SetError ''CredentialsSignin'' \<in> set (handleSignIn some_credentials env_bad_credentials)
   \<and> error_s (run_handleSignIn some_credentials env_bad_credentials SignInForm_init)
       = ''CredentialsSignin''
   \<and> \<not> list_ex is_RouterReplace (handleSignIn some_credentials env_bad_credentials)
   \<and> redirected_to (run_handleSignIn some_credentials env_bad_credentials SignInForm_init) = None
   \<and> isSubmitting (run_handleSignIn some_credentials env_bad_credentials SignInForm_init) = False
   \<and> \<not> failure_path some_credentials env_signed_in
   \<and> filter is_RouterReplace (handleSignIn some_credentials env_signed_in)
       = [RouterReplace ''/user/home'']
   \<and> redirected_to (run_handleSignIn some_credentials env_signed_in SignInForm_init)
       = Some ''/user/home''
   \<and> \<not> list_ex is_SetError (handleSignIn some_credentials env_signed_in)
   \<and> isSubmitting (run_handleSignIn some_credentials env_signed_in SignInForm_init) = False"
proof -
  have f: "failure_path some_credentials env_bad_credentials"
    by (simp add: failure_path_iff path_env_bad_credentials)
  have g: "\<not> failure_path some_credentials env_signed_in"
    by (simp add: failure_path_iff path_env_signed_in)
  have m: "SetError ''CredentialsSignin'' \<in> set (handleSignIn some_credentials env_bad_credentials)"
    by (simp add: handleSignIn_trace path_env_bad_credentials)
  from f m g
    signIn_failure_and_success_paths [of some_credentials env_bad_credentials SignInForm_init]
    signIn_failure_and_success_paths [of some_credentials env_signed_in SignInForm_init]
  show ?thesis by (simp add: SignInForm_init_def)
qed









section \<open>Properties of the profile form\<close>

lemma first_file_None: "(first_file files = None) = (files = None \<or> files = Some [])"
  by (simp add: first_file_def split: option.splits list.splits)

lemma handleImageChange_within_limit:
  "file_size f \<le> 5000 * 1024 \<Longrightarrow>
     handleImageChange (Some (f # rest)) s = s\<lparr>pendingReads := pendingReads s + 1\<rparr>"
  by (simp add: handleImageChange_def first_file_def)

lemma handleImageChange_over_limit:
  "5000 * 1024 < file_size f \<Longrightarrow>
     handleImageChange (Some (f # rest)) s = setError (Some size_message) s"
  by (simp add: handleImageChange_def first_file_def)

lemma setError_frame:
  "preview (setError v s) = preview s \<and> selectedFile (setError v s) = selectedFile s
   \<and> pendingReads (setError v s) = pendingReads s \<and> error_p (setError v s) = v"
  by (simp add: setError_def)

lemma fetched_state:
  "fetched =
     \<lparr>preview = Some placeholder, selectedFile = None, error_p = None, success = None,
      initialData = Some ana, watchedName = Some ''Ana'',
      watchedEmail = Some ''ana@example.com'', data_q = Some ana,
      session_user_id = Some ''u1'', isPending = False, pendingReads = 0,
      errorTimer = None, successTimer = None, sent = []\<rparr>"
  by (simp add: fetched_def run_def ProfileForm_init_def data_effect_def ana_def or_default_def)

lemma edited_state:
  "edited =
     \<lparr>preview = Some picture_uri, selectedFile = Some picture_uri, error_p = None,
      success = None, initialData = Some ana, watchedName = Some ''Ana'',
      watchedEmail = Some ''ana@example.com'', data_q = Some ana,
      session_user_id = Some ''u1'', isPending = False, pendingReads = 0,
      errorTimer = None, successTimer = None, sent = []\<rparr>"
  by (simp add: edited_def run_def fetched_state handleImageChange_def first_file_def
      image_of_size_def onloadend_def)

text \<open>
  What the size test of the code does, with the code's own bound of 5000 * 1024 bytes:
  a larger file sets the error and leaves the preview, the pending upload and the readers
  alone; any other file starts a reader and sets no error.
\<close>

lemma image_limit_of_the_code:
  "(5000 * 1024 < file_size f \<longrightarrow>
      error_p (handleImageChange (Some (f # rest)) s) = Some size_message
      \<and> preview (handleImageChange (Some (f # rest)) s) = preview s
      \<and> selectedFile (handleImageChange (Some (f # rest)) s) = selectedFile s
      \<and> pendingReads (handleImageChange (Some (f # rest)) s) = pendingReads s)
   \<and> (file_size f \<le> 5000 * 1024 \<longrightarrow>
      pendingReads (handleImageChange (Some (f # rest)) s) = pendingReads s + 1
      \<and> error_p (handleImageChange (Some (f # rest)) s) = error_p s)"
  by (simp add: handleImageChange_within_limit handleImageChange_over_limit setError_frame)

text \<open>
  C1. The handler's cut is not at 5MB, whichever megabyte is meant. A file of 5,200,000
  bytes is no larger than 5MB in binary megabytes (5,242,880 bytes), yet selecting it sets
  the error message and starts no read. A file of 5,100,000 bytes exceeds 5MB in decimal
  megabytes (5,000,000 bytes), yet selecting it sets no error and starts the read that
  will replace the preview and the pending upload.
\<close>

theorem image_limit_differs_from_5MB:
  "file_size (image_of_size 5200000) \<le> five_MB_binary
   \<and> error_p (handleImageChange (Some [image_of_size 5200000]) fetched) = Some size_message
   \<and> pendingReads (handleImageChange (Some [image_of_size 5200000]) fetched) = 0
   \<and> five_MB_decimal < file_size (image_of_size 5100000)
   \<and> error_p (handleImageChange (Some [image_of_size 5100000]) fetched) = None
   \<and> pendingReads (handleImageChange (Some [image_of_size 5100000]) fetched) = 1
   \<and> preview (run fetched [ImageChange (Some [image_of_size 5100000]),
                            ReaderLoadEnd (Some picture_uri)]) = Some picture_uri"
  by (simp add: image_of_size_def five_MB_binary_def five_MB_decimal_def handleImageChange_def
      first_file_def setError_def fetched_state run_def onloadend_def)

text \<open>
  C3. In every state of the form where no initial profile has been fetched, or where the
  watched name and email equal the fetched ones and no new picture is selected, the
  form counts as unchanged, the submit button is disabled, and submitting the form does
  nothing: no update request is sent.
\<close>

theorem unchanged_form_cannot_submit:
  "initialData s = None
   \<or> (\<exists>i. initialData s = Some i \<and> watchedName s = Some (name_p i)
          \<and> watchedEmail s = Some (email_p i) \<and> selectedFile s = None)
   \<Longrightarrow> \<not> isFormChanged s \<and> button_disabled s \<and> form_submit s = s
       \<and> sent (form_submit s) = sent s"
  by (auto simp: isFormChanged_def button_disabled_def isDisabled_def form_submit_def)

theorem unchanged_form_cannot_submit_witness:
  "initialData fetched = Some ana \<and> watchedName fetched = Some (name_p ana)
   \<and> watchedEmail fetched = Some (email_p ana) \<and> selectedFile fetched = None
   \<and> button_disabled fetched \<and> form_submit fetched = fetched
   \<and> initialData (ProfileForm_init None) = None \<and> button_disabled (ProfileForm_init None)"
proof -
  have a: "initialData fetched = Some ana \<and> watchedName fetched = Some (name_p ana)
   \<and> watchedEmail fetched = Some (email_p ana) \<and> selectedFile fetched = None"
    by (simp add: fetched_state) (simp add: ana_def)
  have b: "initialData (ProfileForm_init None) = None"
    by (simp add: ProfileForm_init_def)
  from a b unchanged_form_cannot_submit [of fetched]
    unchanged_form_cannot_submit [of "ProfileForm_init None"]
  show ?thesis by simp
qed

text \<open>
  C8. Every update request is built from the submitted name and email and from the
  pending upload alone: it carries the user id and exactly the fields \<^verbatim>\<open>name\<close>, \<^verbatim>\<open>email\<close>
  and \<^verbatim>\<open>profilePicture\<close>. The picture is \<^verbatim>\<open>undefined\<close> (not \<^verbatim>\<open>null\<close>) when no file is
  selected, and it is the whole string of the selected file otherwise: the string the
  reader produced, a data URI, which is never empty (an empty string would be sent as
  \<^verbatim>\<open>undefined\<close> too). A submission through the form sends exactly this request, and a
  submission that is blocked sends nothing.
\<close>

theorem picture_sent_whole:
  "mutationFn uid (onSubmit d s) =
     \<lparr>req_userId = uid, req_name = fv_name d, req_email = fv_email d,
      req_profilePicture = or_undefined (selectedFile s)\<rparr>
   \<and> (selectedFile s = None \<longrightarrow>
         req_profilePicture (mutationFn uid (onSubmit d s)) = JsUndefined)
   \<and> (selectedFile s = Some [] \<longrightarrow>
         req_profilePicture (mutationFn uid (onSubmit d s)) = JsUndefined)
   \<and> (\<forall>b. selectedFile s = Some b \<and> b \<noteq> [] \<longrightarrow>
         req_profilePicture (mutationFn uid (onSubmit d s)) = JsString b)
   \<and> (\<forall>b. b \<noteq> [] \<longrightarrow>
         req_profilePicture (mutationFn uid (onSubmit d (onloadend (Some b) s))) = JsString b)
   \<and> (\<not> button_disabled s \<and> form_values s = Some d \<longrightarrow>
         sent (form_submit s) = sent s @ [mutationFn (session_user_id s) (onSubmit d s)])
   \<and> (button_disabled s \<or> form_values s = None \<longrightarrow> sent (form_submit s) = sent s)"
  by (auto simp: mutationFn_def onSubmit_def or_undefined_def onloadend_def form_submit_def)

theorem picture_sent_whole_witness:
  "selectedFile edited = Some picture_uri \<and> picture_uri \<noteq> []
   \<and> \<not> button_disabled edited
   \<and> form_values edited = Some \<lparr>fv_name = ''Ana'', fv_email = ''ana@example.com''\<rparr>
   \<and> sent (form_submit edited) =
       [\<lparr>req_userId = Some ''u1'', req_name = ''Ana'', req_email = ''ana@example.com'',
         req_profilePicture = JsString picture_uri\<rparr>]
   \<and> selectedFile fetched = None
   \<and> mutationFn (Some ''u1'')
        (onSubmit \<lparr>fv_name = ''Ana Maria'', fv_email = ''ana@example.com''\<rparr> fetched) =
       \<lparr>req_userId = Some ''u1'', req_name = ''Ana Maria'', req_email = ''ana@example.com'',
        req_profilePicture = JsUndefined\<rparr>"
proof -
  have a: "selectedFile edited = Some picture_uri \<and> picture_uri \<noteq> []"
    by (simp add: edited_state) (simp add: picture_uri_def)
  have b: "\<not> button_disabled edited"
    by (simp add: button_disabled_def isDisabled_def isFormChanged_def edited_state)
  have c: "form_values edited = Some \<lparr>fv_name = ''Ana'', fv_email = ''ana@example.com''\<rparr>"
    by (simp add: form_values_def edited_state)
  have d: "selectedFile fetched = None" by (simp add: fetched_state)
  have e: "sent edited = [] \<and> session_user_id edited = Some ''u1''"
    by (simp add: edited_state)
  from picture_sent_whole
    [of "Some ''u1''" "\<lparr>fv_name = ''Ana'', fv_email = ''ana@example.com''\<rparr>" edited]
    a b c e
  have f: "sent (form_submit edited) =
       [\<lparr>req_userId = Some ''u1'', req_name = ''Ana'', req_email = ''ana@example.com'',
         req_profilePicture = JsString picture_uri\<rparr>]"
    by (simp add: or_undefined_def)
  from picture_sent_whole
    [of "Some ''u1''" "\<lparr>fv_name = ''Ana Maria'', fv_email = ''ana@example.com''\<rparr>" fetched] d
  have g: "mutationFn (Some ''u1'')
        (onSubmit \<lparr>fv_name = ''Ana Maria'', fv_email = ''ana@example.com''\<rparr> fetched) =
       \<lparr>req_userId = Some ''u1'', req_name = ''Ana Maria'', req_email = ''ana@example.com'',
        req_profilePicture = JsUndefined\<rparr>"
    by (simp add: or_undefined_def)
  from a b c d f g show ?thesis by simp
qed

lemma picked_early_state:
  "picked_early =
     \<lparr>preview = Some placeholder, selectedFile = Some picture_uri, error_p = None,
      success = None, initialData = Some ana, watchedName = Some ''Ana'',
      watchedEmail = Some ''ana@example.com'', data_q = Some ana,
      session_user_id = Some ''u1'', isPending = False, pendingReads = 0,
      errorTimer = None, successTimer = None, sent = []\<rparr>"
  by (simp add: picked_early_def run_def ProfileForm_init_def handleImageChange_def
      first_file_def image_of_size_def onloadend_def data_effect_def ana_def or_default_def)

lemma preview_follows_upload:
  "preview s = selectedFile s \<Longrightarrow> (\<forall>d. e \<noteq> DataFetched d)
     \<Longrightarrow> preview (step s e) = selectedFile (step s e)"
  by (cases e)
    (simp_all add: handleImageChange_def setError_def setSuccess_def onloadend_def
      form_submit_def mutation_onSuccess_def mutation_onError_def errorTimer_fires_def
      successTimer_fires_def split: option.split)

lemma changed_profile_resets_preview_only:
  "preview (step edited (DataFetched ana_renamed)) = Some placeholder
   \<and> selectedFile (step edited (DataFetched ana_renamed)) = Some picture_uri"
  by (simp add: edited_state data_effect_def ana_renamed_def ana_def or_default_def)

text \<open>
  C9 as stated does not hold: the previewed image is not always the one that would be
  submitted. When a small image is picked and read before the fetched profile arrives,
  the effect on the fetched data then writes the preview and leaves the pending upload:
  the preview shows the placeholder, the pending upload is the picked image, the button is
  enabled, and submitting sends the picked image.
\<close>

theorem fetch_after_pick_splits_preview:
  "preview picked_early = Some placeholder
   \<and> selectedFile picked_early = Some picture_uri
   \<and> preview picked_early \<noteq> selectedFile picked_early
   \<and> \<not> button_disabled picked_early
   \<and> sent (form_submit picked_early) =
       [\<lparr>req_userId = Some ''u1'', req_name = ''Ana'', req_email = ''ana@example.com'',
         req_profilePicture = JsString picture_uri\<rparr>]"
  by (simp add: picked_early_state button_disabled_def isDisabled_def isFormChanged_def
      form_submit_def form_values_def mutationFn_def onSubmit_def or_undefined_def)
    (simp add: picture_uri_def placeholder_def)

text \<open>
  C9, amended. After a file within the size bound is selected, a reader is started; when
  its read completes with a data URI, the preview and the pending upload both hold that
  same string (the \<^verbatim>\<open>onloadend\<close> callback writes one value to both in every case). Once
  equal they stay equal under every later event of the form except the arrival of fetched
  profile data: that effect writes the fetched picture, or the placeholder, to the preview
  and leaves the pending upload as it is.
\<close>

theorem preview_is_pending_upload:
  "file_size f \<le> 5000 * 1024 \<Longrightarrow>
     pendingReads (handleImageChange (Some (f # rest)) s) = pendingReads s + 1
     \<and> preview (step (handleImageChange (Some (f # rest)) s) (ReaderLoadEnd (Some d))) = Some d
     \<and> selectedFile (step (handleImageChange (Some (f # rest)) s) (ReaderLoadEnd (Some d)))
         = Some d
     \<and> preview (onloadend r s) = selectedFile (onloadend r s)
     \<and> (preview t = selectedFile t \<and> (\<forall>p. e \<noteq> DataFetched p) \<longrightarrow>
          preview (step t e) = selectedFile (step t e))
     \<and> (truthy (session_user_id t) \<and> data_q t \<noteq> Some p \<longrightarrow>
          preview (step t (DataFetched p)) = Some (or_default (profilePicture p) placeholder)
          \<and> selectedFile (step t (DataFetched p)) = selectedFile t)"
proof -
  assume sz: "file_size f \<le> 5000 * 1024"
  have a: "pendingReads (handleImageChange (Some (f # rest)) s) = pendingReads s + 1
     \<and> preview (step (handleImageChange (Some (f # rest)) s) (ReaderLoadEnd (Some d))) = Some d
     \<and> selectedFile (step (handleImageChange (Some (f # rest)) s) (ReaderLoadEnd (Some d)))
         = Some d
     \<and> preview (onloadend r s) = selectedFile (onloadend r s)"
    using sz by (simp add: handleImageChange_within_limit onloadend_def)
  have b: "preview t = selectedFile t \<and> (\<forall>p. e \<noteq> DataFetched p) \<longrightarrow>
          preview (step t e) = selectedFile (step t e)"
    using preview_follows_upload [of t e] by blast
  have c: "truthy (session_user_id t) \<and> data_q t \<noteq> Some p \<longrightarrow>
          preview (step t (DataFetched p)) = Some (or_default (profilePicture p) placeholder)
          \<and> selectedFile (step t (DataFetched p)) = selectedFile t"
    by (simp add: data_effect_def)
  from a b c show ?thesis by blast
qed

theorem preview_is_pending_upload_witness:
  "file_size (image_of_size 204800) \<le> 5000 * 1024
   \<and> pendingReads (handleImageChange (Some [image_of_size 204800]) fetched) = 1
   \<and> preview (step (handleImageChange (Some [image_of_size 204800]) fetched)
        (ReaderLoadEnd (Some picture_uri))) = Some picture_uri
   \<and> selectedFile (step (handleImageChange (Some [image_of_size 204800]) fetched)
        (ReaderLoadEnd (Some picture_uri))) = Some picture_uri
   \<and> preview edited = selectedFile edited
   \<and> preview (step edited (NameTyped ''Ana Maria'')) = selectedFile (step edited (NameTyped ''Ana Maria''))
   \<and> truthy (session_user_id edited) \<and> data_q edited \<noteq> Some ana_renamed
   \<and> preview (step edited (DataFetched ana_renamed)) = Some placeholder
   \<and> selectedFile (step edited (DataFetched ana_renamed)) = Some picture_uri"
proof -
  have sz: "file_size (image_of_size 204800) \<le> 5000 * 1024"
    by (simp add: image_of_size_def)
  have p0: "pendingReads fetched = 0"
    by (simp add: fetched_state)
  have eq: "preview edited = selectedFile edited \<and> selectedFile edited = Some picture_uri"
    by (simp add: edited_state)
  have ty: "\<forall>p. NameTyped ''Ana Maria'' \<noteq> DataFetched p" by simp
  have uid: "truthy (session_user_id edited) \<and> data_q edited \<noteq> Some ana_renamed"
    by (simp add: edited_state ana_renamed_def ana_def)
  have pic: "or_default (profilePicture ana_renamed) placeholder = placeholder"
    by (simp add: ana_renamed_def ana_def or_default_def)
  from preview_is_pending_upload
    [OF sz, of "[]" fetched picture_uri None edited "NameTyped ''Ana Maria''" ana_renamed]
    sz p0 eq ty uid pic
  show ?thesis by (simp del: step.simps)
qed

text \<open>
  C10. A change event carries no file exactly when its file list is absent or empty, and
  then \<^verbatim>\<open>handleImageChange\<close> returns the state it was given: no error is set, no reader is
  started, and the preview and the pending upload are as before.
\<close>

theorem no_file_no_change:
  "(first_file files = None) = (files = None \<or> files = Some [])
   \<and> handleImageChange None s = s
   \<and> handleImageChange (Some []) s = s"
  by (simp add: first_file_None) (simp add: handleImageChange_def first_file_def)

theorem no_file_no_change_witness:
  "first_file (Some []) = None
   \<and> handleImageChange None edited = edited
   \<and> handleImageChange (Some []) edited = edited"
  using no_file_no_change [of "Some []" edited] by simp

subsection \<open>The popup timers\<close>








section \<open>Properties of the billet router\<close>










lemma take_parts_in_memory:
  "take_parts opts field left taken parts = Inr (Some f) \<Longrightarrow> storage opts = MemoryStorage
     \<Longrightarrow> (\<forall>g. taken = Some g \<longrightarrow> buffer g \<noteq> None \<and> destination g = None)
     \<Longrightarrow> buffer f \<noteq> None \<and> destination f = None"
  by (induction opts field left taken parts rule: take_parts.induct)
    (auto simp: store_file_def split: if_splits)

text \<open>
  C6. Of the four routes exactly one has a middleware, \<^verbatim>\<open>POST /billet\<close>, and it has one:
  \<^verbatim>\<open>upload.single('file')\<close>. The multer instance uses memory storage and sets no size
  limit. So a request with one named file under the field \<^verbatim>\<open>file\<close> gets that file with its
  whole content in the buffer and nothing on disk, whatever its size, and whatever file
  the middleware hands on is in memory; a second named file, or a named file under
  another field, is refused; a part without a file name is skipped; a request without a
  file passes with no file.
\<close>

theorem upload_middleware:
  "filter (\<lambda>r. middlewares r \<noteq> []) billetRouter =
     [\<lparr>verb = POST, path = [Lit ''billet''], middlewares = [Single upload ''file''],
       handler = uploadBillet\<rparr>]
   \<and> storage upload = MemoryStorage
   \<and> limits_fileSize upload = None
   \<and> (fieldname p = ''file'' \<and> basename (filename p) \<noteq> [] \<longrightarrow>
        run_middleware (Single upload ''file'') [p] =
          Inr (Some \<lparr>mf_fieldname = ''file'', originalname = basename (filename p),
                      buffer = Some (content p), destination = None,
                      mf_size = length (content p)\<rparr>))
   \<and> (fieldname p = ''file'' \<and> basename (filename p) \<noteq> [] \<and> basename (filename q) \<noteq> []
        \<longrightarrow> run_middleware (Single upload ''file'') (p # q # rest) = Inl LIMIT_UNEXPECTED_FILE)
   \<and> (fieldname p \<noteq> ''file'' \<and> basename (filename p) \<noteq> [] \<longrightarrow>
        run_middleware (Single upload ''file'') (p # rest) = Inl LIMIT_UNEXPECTED_FILE)
   \<and> (basename (filename p) = [] \<longrightarrow>
        run_middleware (Single upload ''file'') (p # rest)
          = run_middleware (Single upload ''file'') rest)
   \<and> run_middleware (Single upload ''file'') [] = Inr None
   \<and> (run_middleware (Single upload ''file'') parts = Inr (Some f) \<longrightarrow>
        buffer f \<noteq> None \<and> destination f = None)"
proof -
  have a: "filter (\<lambda>r. middlewares r \<noteq> []) billetRouter =
     [\<lparr>verb = POST, path = [Lit ''billet''], middlewares = [Single upload ''file''],
       handler = uploadBillet\<rparr>]
     \<and> storage upload = MemoryStorage \<and> limits_fileSize upload = None"
    by (simp add: billetRouter_def upload_def multer_def)
  have b: "fieldname p = ''file'' \<and> basename (filename p) \<noteq> [] \<longrightarrow>
        run_middleware (Single upload ''file'') [p] =
          Inr (Some \<lparr>mf_fieldname = ''file'', originalname = basename (filename p),
                      buffer = Some (content p), destination = None,
                      mf_size = length (content p)\<rparr>)"
    by (simp add: upload_def multer_def store_file_def over_limit_def)
  have c: "fieldname p = ''file'' \<and> basename (filename p) \<noteq> [] \<and> basename (filename q) \<noteq> []
        \<longrightarrow> run_middleware (Single upload ''file'') (p # q # rest) = Inl LIMIT_UNEXPECTED_FILE"
    by (simp add: upload_def multer_def over_limit_def)
  have d: "fieldname p \<noteq> ''file'' \<and> basename (filename p) \<noteq> [] \<longrightarrow>
        run_middleware (Single upload ''file'') (p # rest) = Inl LIMIT_UNEXPECTED_FILE"
    by simp
  have e: "basename (filename p) = [] \<longrightarrow>
        run_middleware (Single upload ''file'') (p # rest)
          = run_middleware (Single upload ''file'') rest"
    by simp
  have f: "run_middleware (Single upload ''file'') [] = Inr None" by simp
  have g: "run_middleware (Single upload ''file'') parts = Inr (Some f) \<longrightarrow>
        buffer f \<noteq> None \<and> destination f = None"
    using take_parts_in_memory [of upload "''file''" 1 None parts f]
    by (simp add: upload_def multer_def)
  from a b c d e f g show ?thesis by blast
qed

theorem upload_middleware_witness:
  "fieldname invoice = ''file'' \<and> basename (filename invoice) = ''march.pdf''
   \<and> run_middleware (Single upload ''file'') [invoice] =
          Inr (Some \<lparr>mf_fieldname = ''file'', originalname = ''march.pdf'',
                      buffer = Some ''%PDF-1.4'', destination = None, mf_size = 8\<rparr>)
   \<and> run_middleware (Single upload ''file'') [invoice, invoice] = Inl LIMIT_UNEXPECTED_FILE
   \<and> run_middleware (Single upload ''file'') [invoice\<lparr>fieldname := ''avatar''\<rparr>]
        = Inl LIMIT_UNEXPECTED_FILE
   \<and> basename (filename empty_input) = []
   \<and> run_middleware (Single upload ''file'') [empty_input] = Inr None
   \<and> run_middleware (Single upload ''file'') [empty_input, invoice] =
          Inr (Some \<lparr>mf_fieldname = ''file'', originalname = ''march.pdf'',
                      buffer = Some ''%PDF-1.4'', destination = None, mf_size = 8\<rparr>)"
proof -
  have n: "fieldname invoice = ''file'' \<and> basename (filename invoice) = ''march.pdf''
      \<and> content invoice = ''%PDF-1.4'' \<and> basename (filename empty_input) = []"
    by (simp add: invoice_def empty_input_def basename_def)
  have m: "fieldname (invoice\<lparr>fieldname := ''avatar''\<rparr>) \<noteq> ''file''
      \<and> filename (invoice\<lparr>fieldname := ''avatar''\<rparr>) = filename invoice"
    by simp
  from n m
    upload_middleware [of invoice invoice "[]"]
    upload_middleware [of "invoice\<lparr>fieldname := ''avatar''\<rparr>" invoice "[]"]
    upload_middleware [of empty_input invoice "[]"]
    upload_middleware [of empty_input invoice "[invoice]"]
  show ?thesis by (simp del: run_middleware.simps)
qed

end
